theory Spec2Isabelle
  imports Complex_Main
begin

section \<open>Python values\<close>

text \<open>
  The codec of \<^verbatim>\<open>cate/param.py\<close> only copies floating-point numbers; it never
  computes with them. A float64 is therefore a finite real, one of the two infinities
  (the default bounds are built from \<^verbatim>\<open>np.inf\<close>) or NaN. \<open>Uninit\<close> is the content
  of a slot of \<^verbatim>\<open>np.empty(n)\<close> that has not been written yet.
\<close>

datatype pyfloat = Fin real | PosInf | NegInf | NaN | Uninit

text \<open>
  The Python objects that can be stored in a parameter, handed to a setter or returned
  by the codec: \<^verbatim>\<open>None\<close>, a float, a \<^verbatim>\<open>str\<close>, a \<^verbatim>\<open>bytes\<close> object, a
  one-dimensional float64 \<^verbatim>\<open>numpy.ndarray\<close>, a list of floats, a zero-argument function
  (with the value it produces), the class \<^verbatim>\<open>ValueError\<close> itself, and any other object
  (no \<^verbatim>\<open>__len__\<close>, not callable, no scalar for \<^verbatim>\<open>np.isscalar\<close>).
\<close>

datatype pyval =
    PyNone
  | PyFloat pyfloat
  | PyStr string
  | PyBytes string
  | NdArray "pyfloat list"
  | PyList "pyfloat list"
  | PyCallable pyval
  | ValueErrorClass
  | PyObject

datatype exn = TypeError | ValueError | AssertionError

text \<open>
  \<^verbatim>\<open>np.isscalar\<close>: true for a Python number, and for a \<^verbatim>\<open>str\<close> or \<^verbatim>\<open>bytes\<close> object
  too; false for arrays, lists, None, functions.
\<close>

fun np_isscalar :: "pyval \<Rightarrow> bool" where
  "np_isscalar (PyFloat _) = True"
| "np_isscalar (PyStr _) = True"
| "np_isscalar (PyBytes _) = True"
| "np_isscalar _ = False"

fun py_is_text :: "pyval \<Rightarrow> bool" where
  "py_is_text (PyStr _) = True"
| "py_is_text (PyBytes _) = True"
| "py_is_text _ = False"

text \<open>The builtin \<^verbatim>\<open>len\<close>: a TypeError for an object without \<^verbatim>\<open>__len__\<close>.\<close>

fun py_len :: "pyval \<Rightarrow> exn + nat" where
  "py_len (NdArray xs) = Inr (length xs)"
| "py_len (PyList xs) = Inr (length xs)"
| "py_len (PyStr s) = Inr (length s)"
| "py_len (PyBytes s) = Inr (length s)"
| "py_len _ = Inl TypeError"

fun py_callable :: "pyval \<Rightarrow> bool" where
  "py_callable (PyCallable _) = True"
| "py_callable ValueErrorClass = True"
| "py_callable _ = False"

text \<open>Calling with no argument; calling the class \<^verbatim>\<open>ValueError\<close> makes an instance.\<close>

fun py_call :: "pyval \<Rightarrow> exn + pyval" where
  "py_call (PyCallable r) = Inr r"
| "py_call ValueErrorClass = Inr PyObject"
| "py_call _ = Inl TypeError"

text \<open>\<^verbatim>\<open>xs[i:j]\<close> for \<open>0 \<le> i \<le> j\<close>: a slice never raises, it is cut at the end.\<close>

definition slice :: "'a list \<Rightarrow> nat \<Rightarrow> nat \<Rightarrow> 'a list" where
  "slice xs i j = take (j - i) (drop i xs)"

fun py_getslice :: "pyval \<Rightarrow> nat \<Rightarrow> nat \<Rightarrow> exn + pyval" where
  "py_getslice (NdArray xs) i j = Inr (NdArray (slice xs i j))"
| "py_getslice (PyList xs) i j = Inr (PyList (slice xs i j))"
| "py_getslice (PyStr s) i j = Inr (PyStr (slice s i j))"
| "py_getslice (PyBytes s) i j = Inr (PyBytes (slice s i j))"
| "py_getslice _ i j = Inl TypeError"

text \<open>\<^verbatim>\<open>ndarray.item()\<close>: the single element as a Python number, a ValueError otherwise.\<close>

fun ndarray_item :: "pyfloat list \<Rightarrow> exn + pyval" where
  "ndarray_item [x] = Inr (PyFloat x)"
| "ndarray_item _ = Inl ValueError"

text \<open>
  What numpy writes for \<^verbatim>\<open>out[i:j] = v\<close> into \<open>n\<close> slots of a float64 array: a number
  fills them, \<^verbatim>\<open>None\<close> fills them with NaN, a sequence of \<open>n\<close> elements is copied,
  a sequence of one element is broadcast, any other length is a ValueError, and an
  object that is no number is a TypeError. A \<^verbatim>\<open>str\<close> or \<^verbatim>\<open>bytes\<close> object is converted
  to a float when its text is a number and is a ValueError otherwise; that conversion is
  NumPy's own and is taken as the parameter \<open>tf\<close>.
\<close>

fun np_broadcast :: "(pyval \<Rightarrow> pyfloat option) \<Rightarrow> pyval \<Rightarrow> nat \<Rightarrow> exn + pyfloat list" where
  "np_broadcast tf (PyFloat f) n = Inr (replicate n f)"
| "np_broadcast tf PyNone n = Inr (replicate n NaN)"
| "np_broadcast tf (PyStr s) n =
     (case tf (PyStr s) of None \<Rightarrow> Inl ValueError | Some f \<Rightarrow> Inr (replicate n f))"
| "np_broadcast tf (PyBytes s) n =
     (case tf (PyBytes s) of None \<Rightarrow> Inl ValueError | Some f \<Rightarrow> Inr (replicate n f))"
| "np_broadcast tf (NdArray xs) n =
     (if length xs = n then Inr xs
      else if length xs = 1 then Inr (replicate n (hd xs)) else Inl ValueError)"
| "np_broadcast tf (PyList xs) n =
     (if length xs = n then Inr xs
      else if length xs = 1 then Inr (replicate n (hd xs)) else Inl ValueError)"
| "np_broadcast tf _ n = Inl TypeError"

definition np_setslice ::
  "(pyval \<Rightarrow> pyfloat option) \<Rightarrow> pyfloat list \<Rightarrow> nat \<Rightarrow> nat \<Rightarrow> pyval \<Rightarrow> exn + pyfloat list" where
  "np_setslice tf out i j v =
     (case np_broadcast tf v (length (slice out i j)) of
        Inl e \<Rightarrow> Inl e
      | Inr vals \<Rightarrow> Inr (take i out @ vals @ drop j out))"

definition np_empty :: "nat \<Rightarrow> pyfloat list" where
  "np_empty n = replicate n Uninit"

section \<open>The Parameter classes\<close>

datatype cls = ParameterC | ScalarParameterC | VectorParameterC

record param =
  cls :: cls
  p_value :: pyval
  p_value_original :: pyval
  optimize :: bool
  p_bounds :: "(pyval \<times> pyval) option"

text \<open>\<^verbatim>\<open>Parameter.__init__(self, value=None, optimize=True, bounds=None)\<close>\<close>

definition Parameter_init :: "cls \<Rightarrow> pyval \<Rightarrow> bool \<Rightarrow> (pyval \<times> pyval) option \<Rightarrow> param" where
  "Parameter_init c v opt b =
     \<lparr>cls = c, p_value = v, p_value_original = v, optimize = opt, p_bounds = b\<rparr>"

text \<open>The \<^verbatim>\<open>value\<close> property: a stored producer is called on every read.\<close>

definition Parameter_value :: "param \<Rightarrow> exn + pyval" where
  "Parameter_value p =
     (if py_callable (p_value p) then py_call (p_value p) else Inr (p_value p))"

text \<open>\<^verbatim>\<open>Parameter.__len__\<close> looks at the stored \<^verbatim>\<open>_value\<close>, not at the property.\<close>

definition Parameter_len :: "param \<Rightarrow> exn + nat" where
  "Parameter_len p = (if np_isscalar (p_value p) then Inr 1 else py_len (p_value p))"

text \<open>The \<^verbatim>\<open>bounds\<close> property: the explicit pair, or infinities of the current length.\<close>

definition Parameter_bounds :: "param \<Rightarrow> exn + (pyval \<times> pyval)" where
  "Parameter_bounds p =
     (case p_bounds p of
        Some b \<Rightarrow> Inr b
      | None \<Rightarrow>
          (case Parameter_len p of
             Inl e \<Rightarrow> Inl e
           | Inr n \<Rightarrow> Inr (PyList (replicate n NegInf), PyList (replicate n PosInf))))"

text \<open>\<^verbatim>\<open>ScalarParameter.__init__\<close> stores the value without going through the setter.\<close>

definition ScalarParameter_init :: "pyval \<Rightarrow> bool \<Rightarrow> (pyval \<times> pyval) option \<Rightarrow> param" where
  "ScalarParameter_init v opt b = Parameter_init ScalarParameterC v opt b"

text \<open>The setter of \<^verbatim>\<open>ScalarParameter.value\<close>.\<close>

definition ScalarParameter_set_value :: "param \<Rightarrow> pyval \<Rightarrow> exn + param" where
  "ScalarParameter_set_value p v =
     (if v \<noteq> PyNone then
        (case (case v of NdArray xs \<Rightarrow> ndarray_item xs | _ \<Rightarrow> Inr v) of
           Inl e \<Rightarrow> Inl e
         | Inr v' \<Rightarrow>
             if \<not> np_isscalar v' then Inl TypeError else Inr (p\<lparr>p_value := v'\<rparr>))
      else Inr (p\<lparr>p_value := v\<rparr>))"

text \<open>
  \<^verbatim>\<open>VectorParameter.__init__\<close>. \<^verbatim>\<open>np.array(value, dtype=np.float)\<close> turns a list of
  floats into an array with the same elements (\<^verbatim>\<open>np.float\<close> is the builtin float in the
  NumPy releases that still have the name).
\<close>

definition VectorParameter_init :: "pyval \<Rightarrow> bool \<Rightarrow> (pyval \<times> pyval) option \<Rightarrow> exn + param" where
  "VectorParameter_init v opt b =
     (let value = (case v of PyList xs \<Rightarrow> NdArray xs | _ \<Rightarrow> v) in
      case value of
        NdArray xs \<Rightarrow>
          if \<not> length xs = 3 then Inl ValueError
          else Inr (Parameter_init VectorParameterC value opt b)
      | _ \<Rightarrow> Inl TypeError)"

text \<open>
  Assignment \<^verbatim>\<open>p.value = v\<close>: only \<^verbatim>\<open>ScalarParameter\<close> overrides the setter of the
  base class, which stores anything.
\<close>

definition set_value :: "param \<Rightarrow> pyval \<Rightarrow> exn + param" where
  "set_value p v =
     (case cls p of
        ScalarParameterC \<Rightarrow> ScalarParameter_set_value p v
      | _ \<Rightarrow> Inr (p\<lparr>p_value := v\<rparr>))"

section \<open>The codec: params2ndarray and update_params\<close>

text \<open>
  Parameters are mutable objects and a collection holds references to them, so the same
  object may occur twice. The heap maps an address to the object stored there; an entry
  of a collection is a reference to a parameter or some object that is no
  \<^verbatim>\<open>Parameter\<close>. The warnings issued so far are part of the state. The state also
  carries the conversion of text to float64 of the NumPy at hand (see \<open>np_broadcast\<close>);
  no function changes it.
\<close>

type_synonym addr = nat

datatype entry = Ref addr | NonParam

datatype warning = UserWarning string

record world =
  heap :: "addr \<Rightarrow> param"
  warnings :: "warning list"
  text_to_float :: "pyval \<Rightarrow> pyfloat option"

definition not_parameter_warning :: warning where
  "not_parameter_warning =
     UserWarning ''A value in `params` is not of type `Parameter`. The value is ignored.''"

definition warn :: "world \<Rightarrow> warning \<Rightarrow> world" where
  "warn w msg = w\<lparr>warnings := warnings w @ [msg]\<rparr>"

text \<open>The first loop of \<^verbatim>\<open>params2ndarray\<close>: the length of the flat vector.\<close>

fun compute_length :: "world \<Rightarrow> entry list \<Rightarrow> bool \<Rightarrow> nat \<Rightarrow> world \<times> (exn + nat)" where
  "compute_length w [] opt len = (w, Inr len)"
| "compute_length w (NonParam # ps) opt len =
     compute_length (warn w not_parameter_warning) ps opt len"
| "compute_length w (Ref a # ps) opt len =
     (let p = heap w a in
      if opt \<and> \<not> optimize p then compute_length w ps opt len
      else (case Parameter_len p of
              Inl e \<Rightarrow> (w, Inl e)
            | Inr len_p \<Rightarrow> compute_length w ps opt (len + len_p)))"

text \<open>
  The \<^verbatim>\<open>if key == ...\<close> chain of the second loop: the value to store, or nothing for
  an unknown key (the branch that returns).
\<close>

definition select_store :: "param \<Rightarrow> string \<Rightarrow> exn + pyval option" where
  "select_store p key =
     (if key = ''value'' then map_sum id Some (Parameter_value p)
      else if key = ''min_bound'' then map_sum id (Some \<circ> fst) (Parameter_bounds p)
      else if key = ''max_bound'' then map_sum id (Some \<circ> snd) (Parameter_bounds p)
      else Inr None)"

text \<open>The second loop either returns early or runs to the end with \<open>out\<close> and \<open>idx\<close>.\<close>

datatype fill_exit = Return pyval | Done "pyfloat list" nat

fun fill :: "(pyval \<Rightarrow> pyfloat option) \<Rightarrow> (addr \<Rightarrow> param) \<Rightarrow> entry list \<Rightarrow> bool \<Rightarrow> string
    \<Rightarrow> pyfloat list \<Rightarrow> nat \<Rightarrow> exn + fill_exit" where
  "fill tf h [] opt key out idx = Inr (Done out idx)"
| "fill tf h (NonParam # ps) opt key out idx = fill tf h ps opt key out idx"
| "fill tf h (Ref a # ps) opt key out idx =
     (let p = h a in
      if opt \<and> \<not> optimize p then fill tf h ps opt key out idx
      else (case Parameter_len p of
              Inl e \<Rightarrow> Inl e
            | Inr len_p \<Rightarrow>
                (case select_store p key of
                   Inl e \<Rightarrow> Inl e
                 | Inr None \<Rightarrow> Inr (Return ValueErrorClass)
                 | Inr (Some store) \<Rightarrow>
                     (case np_setslice tf out idx (idx + len_p) store of
                        Inl e \<Rightarrow> Inl e
                      | Inr out' \<Rightarrow> fill tf h ps opt key out' (idx + len_p)))))"

definition params2ndarray :: "world \<Rightarrow> entry list \<Rightarrow> bool \<Rightarrow> string \<Rightarrow> world \<times> (exn + pyval)" where
  "params2ndarray w params optimizable_only key =
     (case compute_length w params optimizable_only 0 of
        (w1, Inl e) \<Rightarrow> (w1, Inl e)
      | (w1, Inr len) \<Rightarrow>
          if len = 0 then (w1, Inr (PyList []))
          else (case fill (text_to_float w1) (heap w1) params optimizable_only key
                        (np_empty len) 0 of
                  Inl e \<Rightarrow> (w1, Inl e)
                | Inr (Return v) \<Rightarrow> (w1, Inr v)
                | Inr (Done out idx) \<Rightarrow>
                    if idx = len then (w1, Inr (NdArray out))
                    else (w1, Inl AssertionError)))"

text \<open>
  The loop of \<^verbatim>\<open>update_params\<close>. The state reached is returned with an exception
  too: what was assigned before the exception stays assigned.
\<close>

fun update_loop :: "world \<Rightarrow> entry list \<Rightarrow> pyval \<Rightarrow> bool \<Rightarrow> nat \<Rightarrow> world \<times> (exn + nat)" where
  "update_loop w [] x opt idx = (w, Inr idx)"
| "update_loop w (NonParam # ps) x opt idx = update_loop w ps x opt idx"
| "update_loop w (Ref a # ps) x opt idx =
     (let p = heap w a in
      if opt \<and> \<not> optimize p then update_loop w ps x opt idx
      else (case Parameter_len p of
              Inl e \<Rightarrow> (w, Inl e)
            | Inr len_p \<Rightarrow>
                if \<not> len_p \<noteq> 0 then (w, Inl AssertionError)
                else (case py_getslice x idx (idx + len_p) of
                        Inl e \<Rightarrow> (w, Inl e)
                      | Inr s \<Rightarrow>
                          (case set_value p s of
                             Inl e \<Rightarrow> (w, Inl e)
                           | Inr p' \<Rightarrow>
                               update_loop (w\<lparr>heap := (heap w)(a := p')\<rparr>) ps x opt
                                 (idx + len_p)))))"

definition update_params :: "world \<Rightarrow> entry list \<Rightarrow> pyval \<Rightarrow> bool \<Rightarrow> world \<times> exn option" where
  "update_params w params x optimizable_only =
     (case update_loop w params x optimizable_only 0 of
        (w1, Inl e) \<Rightarrow> (w1, Some e)
      | (w1, Inr idx) \<Rightarrow>
          (case py_len x of
             Inl e \<Rightarrow> (w1, Some e)
           | Inr n \<Rightarrow> if idx = n then (w1, None) else (w1, Some AssertionError)))"

section \<open>The flat vector of the specification\<close>

text \<open>
  An entry takes part in a pack or unpack cycle unless only optimizable parameters
  are asked for and its flag is off (the \<^verbatim>\<open>continue\<close> guard common to all three loops).
\<close>

definition included :: "bool \<Rightarrow> param \<Rightarrow> bool" where
  "included opt p = (if opt then optimize p else True)"

fun flat_of :: "pyval \<Rightarrow> pyfloat list" where
  "flat_of (PyFloat f) = [f]"
| "flat_of (NdArray xs) = xs"
| "flat_of (PyList xs) = xs"
| "flat_of _ = []"

text \<open>
  The flat vector as the specification words it (section 3): the concatenation, in
  collection order, of the value of every included parameter. It is what
  \<open>params2ndarray\<close> is compared with.
\<close>

fun spec_flat_vector :: "(addr \<Rightarrow> param) \<Rightarrow> entry list \<Rightarrow> bool \<Rightarrow> pyfloat list" where
  "spec_flat_vector h [] opt = []"
| "spec_flat_vector h (NonParam # ps) opt = spec_flat_vector h ps opt"
| "spec_flat_vector h (Ref a # ps) opt =
     (if included opt (h a) then flat_of (p_value (h a)) else []) @ spec_flat_vector h ps opt"

text \<open>
  A stored value is concrete and has the shape of its class: a number in a
  \<^verbatim>\<open>ScalarParameter\<close>, an array of length 3 in a \<^verbatim>\<open>VectorParameter\<close>, a non-empty
  array in a plain \<^verbatim>\<open>Parameter\<close>.
\<close>

definition shape_valid :: "param \<Rightarrow> bool" where
  "shape_valid p =
     (case p_value p of
        PyFloat f \<Rightarrow> cls p = ScalarParameterC
      | NdArray xs \<Rightarrow>
          (case cls p of
             ScalarParameterC \<Rightarrow> False
           | VectorParameterC \<Rightarrow> length xs = 3
           | ParameterC \<Rightarrow> xs \<noteq> [])
      | _ \<Rightarrow> False)"

fun valid_entry :: "(addr \<Rightarrow> param) \<Rightarrow> bool \<Rightarrow> entry \<Rightarrow> bool" where
  "valid_entry h opt NonParam = True"
| "valid_entry h opt (Ref a) = (if included opt (h a) then shape_valid (h a) else True)"

fun is_param :: "entry \<Rightarrow> bool" where
  "is_param (Ref a) = True"
| "is_param NonParam = False"

text \<open>
  The weaker property that assignments keep: a \<^verbatim>\<open>ScalarParameter\<close> holds a number, any
  other parameter an array of whatever length.
\<close>

definition numeric_value :: "param \<Rightarrow> bool" where
  "numeric_value p =
     (case p_value p of
        PyFloat f \<Rightarrow> cls p = ScalarParameterC
      | NdArray xs \<Rightarrow> cls p \<noteq> ScalarParameterC
      | _ \<Rightarrow> False)"

section \<open>The calibration loop (examples/needles/util.py)\<close>

text \<open>
  The attributes of a geometry that \<^verbatim>\<open>run_calibration\<close> compares. The geometry class and
  \<^verbatim>\<open>np.testing.assert_almost_equal\<close> are not part of the two files: the comparison is a
  parameter, any function that returns normally or raises.
\<close>

record 'v geometry =
  source :: 'v
  detector :: 'v
  roll :: 'v
  pitch :: 'v
  yaw :: 'v

text \<open>The body of the \<^verbatim>\<open>try\<close>: five assertions, the first failure leaves the block.\<close>

definition compare_geometry ::
  "('v \<Rightarrow> 'v \<Rightarrow> nat \<Rightarrow> 'e option) \<Rightarrow> 'v geometry \<Rightarrow> 'v geometry \<Rightarrow> 'e option" where
  "compare_geometry assert_almost_equal g1 g2 =
     (let decimal_accuracy = 3 in
      case assert_almost_equal (source g1) (source g2) decimal_accuracy of
        Some e \<Rightarrow> Some e
      | None \<Rightarrow>
      (case assert_almost_equal (detector g1) (detector g2) decimal_accuracy of
        Some e \<Rightarrow> Some e
      | None \<Rightarrow>
      (case assert_almost_equal (roll g1) (roll g2) decimal_accuracy of
        Some e \<Rightarrow> Some e
      | None \<Rightarrow>
      (case assert_almost_equal (pitch g1) (pitch g2) decimal_accuracy of
        Some e \<Rightarrow> Some e
      | None \<Rightarrow> assert_almost_equal (yaw g1) (yaw g2) decimal_accuracy))))"

text \<open>\<^verbatim>\<open>try: ... except: pass\<close>\<close>

definition try_compare ::
  "('v \<Rightarrow> 'v \<Rightarrow> nat \<Rightarrow> 'e option) \<Rightarrow> 'v geometry \<Rightarrow> 'v geometry \<Rightarrow> 'e option" where
  "try_compare assert_almost_equal g1 g2 =
     (case compare_geometry assert_almost_equal g1 g2 of
        Some e \<Rightarrow> None
      | None \<Rightarrow> None)"

text \<open>The loop over \<^verbatim>\<open>zip(geoms_initial, geoms_calibrated)\<close>; an exception would end it.\<close>

fun validation_loop ::
  "('v \<Rightarrow> 'v \<Rightarrow> nat \<Rightarrow> 'e option) \<Rightarrow> ('v geometry \<times> 'v geometry) list \<Rightarrow> 'e option" where
  "validation_loop assert_almost_equal [] = None"
| "validation_loop assert_almost_equal ((g1, g2) # gs) =
     (case try_compare assert_almost_equal g1 g2 of
        Some e \<Rightarrow> Some e
      | None \<Rightarrow> validation_loop assert_almost_equal gs)"

text \<open>
  \<^verbatim>\<open>run_initial_marker_optimization\<close>. The triangulation and \<^verbatim>\<open>run_calibration\<close> (with
  its solver) are parameters that return a result or raise; the calibration updates the
  geometries in place, so it returns them. The calls made are recorded in the state.
\<close>

datatype call = Triangulate | Calibrate

datatype ('e, 'a) outcome = Returned 'a | AssertFailed | UnboundLocal | Raised 'e

record ('g, 'm) loop_state =
  geoms :: 'g
  markers :: "'m option"
  calls :: "call list"

fun iterate ::
  "('g \<Rightarrow> 'd \<Rightarrow> 'e + 'm) \<Rightarrow> ('g \<Rightarrow> 'm \<Rightarrow> 'd \<Rightarrow> 'e + 'g) \<Rightarrow> 'd \<Rightarrow> nat
    \<Rightarrow> ('g, 'm) loop_state \<Rightarrow> ('g, 'm) loop_state \<times> 'e option" where
  "iterate tri cal data 0 s = (s, None)"
| "iterate tri cal data (Suc k) s =
     (let s1 = s\<lparr>calls := calls s @ [Triangulate]\<rparr> in
      case tri (geoms s1) data of
        Inl e \<Rightarrow> (s1, Some e)
      | Inr m \<Rightarrow>
          (let s2 = s1\<lparr>markers := Some m, calls := calls s1 @ [Calibrate]\<rparr> in
           case cal (geoms s2) m data of
             Inl e \<Rightarrow> (s2, Some e)
           | Inr g \<Rightarrow> iterate tri cal data k (s2\<lparr>geoms := g\<rparr>)))"

definition run_initial_marker_optimization ::
  "('g \<Rightarrow> 'd \<Rightarrow> 'e + 'm) \<Rightarrow> ('g \<Rightarrow> 'm \<Rightarrow> 'd \<Rightarrow> 'e + 'g) \<Rightarrow> 'g \<Rightarrow> 'd \<Rightarrow> int
    \<Rightarrow> ('g, 'm) loop_state \<times> ('e, 'm) outcome" where
  "run_initial_marker_optimization tri cal gs data nr_iters =
     (let s0 = \<lparr>geoms = gs, markers = None, calls = []\<rparr> in
      if \<not> nr_iters > 0 then (s0, AssertFailed)
      else (case iterate tri cal data (nat nr_iters) s0 of
              (s, Some e) \<Rightarrow> (s, Raised e)
            | (s, None) \<Rightarrow>
                (case markers s of
                   None \<Rightarrow> (s, UnboundLocal)
                 | Some m \<Rightarrow> (s, Returned m))))"

section \<open>Example objects\<close>

text \<open>
  The four parameters of the end-to-end scenario of the specification, at the addresses
  0 to 3 of a heap; every other address holds a \<^verbatim>\<open>Parameter()\<close>.
\<close>

definition example_default :: param where
  "example_default = Parameter_init ParameterC PyNone True None"

definition scalar_a :: param where
  "scalar_a = ScalarParameter_init (PyFloat (Fin 2)) True None"

definition scalar_b :: param where
  "scalar_b = ScalarParameter_init (PyFloat (Fin (- 1))) True None"

definition vector_c :: param where
  "vector_c = Parameter_init VectorParameterC (NdArray [Fin 1, Fin 2, Fin 3]) True None"

definition scalar_d :: param where
  "scalar_d = ScalarParameter_init (PyFloat (Fin 5)) False None"

definition scenario_heap :: "addr \<Rightarrow> param" where
  "scenario_heap =
     (\<lambda>a. example_default)(0 := scalar_a, 1 := scalar_b, 2 := vector_c, 3 := scalar_d)"

text \<open>A conversion of text that knows one numeral.\<close>

definition example_text_to_float :: "pyval \<Rightarrow> pyfloat option" where
  "example_text_to_float v = (if v = PyStr ''1.5'' then Some (Fin (3 / 2)) else None)"

definition scenario_world :: world where
  "scenario_world =
     \<lparr>heap = scenario_heap, warnings = [], text_to_float = example_text_to_float\<rparr>"

definition scenario_params :: "entry list" where
  "scenario_params = [Ref 0, Ref 1, Ref 2, Ref 3]"

definition scenario_x :: pyval where
  "scenario_x = NdArray [Fin 9, Fin (- 9), Fin 7, Fin 8, Fin 9]"

definition scenario_after :: world where
  "scenario_after =
     \<lparr>heap = (\<lambda>a. example_default)
        (0 := scalar_a\<lparr>p_value := PyFloat (Fin 9)\<rparr>,
         1 := scalar_b\<lparr>p_value := PyFloat (Fin (- 9))\<rparr>,
         2 := vector_c\<lparr>p_value := NdArray [Fin 7, Fin 8, Fin 9]\<rparr>,
         3 := scalar_d),
      warnings = [], text_to_float = example_text_to_float\<rparr>"

text \<open>A collection with a placeholder between two parameters.\<close>

definition mixed_params :: "entry list" where
  "mixed_params = [Ref 0, NonParam, Ref 2]"

text \<open>
  A heap whose address 0 holds a \<^verbatim>\<open>ScalarParameter\<close> with a producer as value, and one
  whose address 0 holds \<^verbatim>\<open>ScalarParameter()\<close> (no value yet) and address 1 a parameter
  with an empty array.
\<close>

definition lazy_world :: world where
  "lazy_world =
     \<lparr>heap = (\<lambda>a. example_default)
        (0 := ScalarParameter_init (PyCallable (PyFloat (Fin 1))) True None),
      warnings = [], text_to_float = example_text_to_float\<rparr>"

definition unset_world :: world where
  "unset_world =
     \<lparr>heap = (\<lambda>a. example_default)
        (0 := ScalarParameter_init PyNone True None,
         1 := Parameter_init ParameterC (NdArray []) True None),
      warnings = [], text_to_float = example_text_to_float\<rparr>"

text \<open>Collaborators for the calibration loop that never fail.\<close>

definition example_triangulate :: "nat \<Rightarrow> nat \<Rightarrow> exn + nat" where
  "example_triangulate g d = Inr (g + d)"

definition example_calibrate :: "nat \<Rightarrow> nat \<Rightarrow> nat \<Rightarrow> exn + nat" where
  "example_calibrate g m d = Inr (Suc g)"

lemmas example_defs =
  example_default_def scalar_a_def scalar_b_def vector_c_def scalar_d_def scenario_heap_def
  scenario_world_def scenario_params_def scenario_x_def scenario_after_def mixed_params_def
  lazy_world_def unset_world_def Parameter_init_def ScalarParameter_init_def

lemmas eval_defs =
  params2ndarray_def update_params_def Parameter_len_def Parameter_value_def
  Parameter_bounds_def select_store_def np_setslice_def slice_def np_empty_def set_value_def
  ScalarParameter_set_value_def VectorParameter_init_def included_def shape_valid_def
  warn_def Let_def

section \<open>Properties of the codec loops\<close>

lemma heap_warn [simp]: "heap (warn w m) = heap w"
  by (simp add: warn_def)

lemma warnings_warn [simp]: "warnings (warn w m) = warnings w @ [m]"
  by (simp add: warn_def)

lemma text_to_float_warn [simp]: "text_to_float (warn w m) = text_to_float w"
  by (simp add: warn_def)

lemma Parameter_len_error: "Parameter_len p = Inl e \<Longrightarrow> e = TypeError"
  by (cases "p_value p") (auto simp: Parameter_len_def)

lemma Parameter_len_callable: "p_value p = PyCallable r \<Longrightarrow> Parameter_len p = Inl TypeError"
  by (simp add: Parameter_len_def)

lemma compute_length_heap: "heap (fst (compute_length w ps opt k)) = heap w"
  by (induction w ps opt k rule: compute_length.induct) (auto simp: Let_def split: sum.splits)

lemma compute_length_text:
  "text_to_float (fst (compute_length w ps opt k)) = text_to_float w"
  by (induction w ps opt k rule: compute_length.induct) (auto simp: Let_def split: sum.splits)

lemma compute_length_snd_cong:
  "heap w = heap w' \<Longrightarrow> snd (compute_length w ps opt k) = snd (compute_length w' ps opt k)"
proof (induction ps arbitrary: w w' k)
  case Nil
  then show ?case by simp
next
  case (Cons e ps)
  show ?case
  proof (cases e)
    case (Ref a)
    with Cons.prems Cons.IH [of w w'] show ?thesis
      by (auto simp: Let_def split: sum.splits)
  next
    case NonParam
    with Cons.prems Cons.IH [of "warn w not_parameter_warning" "warn w' not_parameter_warning"]
    show ?thesis by simp
  qed
qed

lemma compute_length_filter:
  "snd (compute_length w (filter is_param ps) opt k) = snd (compute_length w ps opt k)"
proof (induction ps arbitrary: w k)
  case Nil
  then show ?case by simp
next
  case (Cons e ps)
  show ?case
  proof (cases e)
    case (Ref a)
    with Cons.IH show ?thesis by (auto simp: Let_def split: sum.splits)
  next
    case NonParam
    have "snd (compute_length w (filter is_param ps) opt k) =
          snd (compute_length (warn w not_parameter_warning) (filter is_param ps) opt k)"
      by (rule compute_length_snd_cong) simp
    with NonParam Cons.IH show ?thesis by simp
  qed
qed

lemma compute_length_warnings:
  "compute_length w ps opt k = (w1, Inr n) \<Longrightarrow>
     warnings w1 =
       warnings w @ replicate (length (filter (\<lambda>e. \<not> is_param e) ps)) not_parameter_warning"
proof (induction ps arbitrary: w k)
  case Nil
  then show ?case by simp
next
  case (Cons e ps)
  show ?case
  proof (cases e)
    case (Ref a)
    with Cons.prems Cons.IH show ?thesis
      by (auto simp: Let_def split: sum.splits if_splits)
  next
    case NonParam
    with Cons.prems Cons.IH [of "warn w not_parameter_warning" k] show ?thesis
      by (simp add: replicate_append_same)
  qed
qed

lemma fill_filter:
  "fill tf h (filter is_param ps) opt key out idx = fill tf h ps opt key out idx"
  by (induction tf h ps opt key out idx rule: fill.induct)
     (auto simp: Let_def split: sum.splits option.splits)

lemma params2ndarray_fst: "fst (params2ndarray w ps opt key) = fst (compute_length w ps opt 0)"
  by (auto simp: params2ndarray_def split: prod.splits sum.splits fill_exit.splits)

lemma params2ndarray_snd:
  "snd (params2ndarray w ps opt key) =
     (case snd (compute_length w ps opt 0) of
        Inl e \<Rightarrow> Inl e
      | Inr len \<Rightarrow>
          if len = 0 then Inr (PyList [])
          else (case fill (text_to_float w) (heap w) ps opt key (np_empty len) 0 of
                  Inl e \<Rightarrow> Inl e
                | Inr (Return v) \<Rightarrow> Inr v
                | Inr (Done out idx) \<Rightarrow>
                    if idx = len then Inr (NdArray out) else Inl AssertionError))"
proof -
  obtain w1 r where c: "compute_length w ps opt 0 = (w1, r)" by (cases "compute_length w ps opt 0")
  then have "heap w1 = heap w" "text_to_float w1 = text_to_float w"
    using compute_length_heap [of w ps opt 0] compute_length_text [of w ps opt 0] by simp_all
  with c show ?thesis
    by (auto simp: params2ndarray_def split: sum.splits fill_exit.splits)
qed

lemma update_loop_filter:
  "update_loop w (filter is_param ps) x opt idx = update_loop w ps x opt idx"
  by (induction w ps x opt idx rule: update_loop.induct)
     (auto simp: Let_def split: sum.splits)

lemma update_loop_warnings: "warnings (fst (update_loop w ps x opt idx)) = warnings w"
  by (induction w ps x opt idx rule: update_loop.induct)
     (auto simp: Let_def split: sum.splits)

lemma update_params_fst: "fst (update_params w ps x opt) = fst (update_loop w ps x opt 0)"
  by (auto simp: update_params_def split: prod.splits sum.splits)

lemma compute_length_callable:
  "Ref a \<in> set ps \<Longrightarrow> included opt (heap w a) \<Longrightarrow> p_value (heap w a) = PyCallable r \<Longrightarrow>
     snd (compute_length w ps opt k) = Inl TypeError"
proof (induction ps arbitrary: w k)
  case Nil
  then show ?case by simp
next
  case (Cons e ps)
  show ?case
  proof (cases e)
    case NonParam
    with Cons.prems Cons.IH [of "warn w not_parameter_warning" k] show ?thesis by simp
  next
    case (Ref b)
    show ?thesis
    proof (cases "b = a")
      case True
      with Ref Cons.prems show ?thesis
        by (auto simp: Let_def included_def Parameter_len_callable split: if_splits)
    next
      case False
      with Ref Cons.prems have "Ref a \<in> set ps" by simp
      from Cons.IH [OF this Cons.prems(2,3)] Ref show ?thesis
        by (auto simp: Let_def split: sum.splits dest: Parameter_len_error)
    qed
  qed
qed

lemma update_loop_append:
  "update_loop w (pre @ post) x opt idx =
     (case update_loop w pre x opt idx of
        (w1, Inl e) \<Rightarrow> (w1, Inl e)
      | (w1, Inr j) \<Rightarrow> update_loop w1 post x opt j)"
  by (induction w pre x opt idx rule: update_loop.induct)
     (auto simp: Let_def split: sum.splits)

lemma update_loop_keeps_callable:
  "update_loop w ps x opt idx = (w1, Inr j) \<Longrightarrow> included opt (heap w a) \<Longrightarrow>
     p_value (heap w a) = PyCallable r \<Longrightarrow> heap w1 a = heap w a"
proof (induction ps arbitrary: w idx)
  case Nil
  then show ?case by simp
next
  case (Cons e ps)
  show ?case
  proof (cases e)
    case NonParam
    with Cons.prems Cons.IH [of w idx] show ?thesis by simp
  next
    case (Ref b)
    show ?thesis
    proof (cases "b = a")
      case True
      with Ref Cons.prems show ?thesis
        by (auto simp: Let_def included_def Parameter_len_callable split: if_splits)
    next
      case False
      have step: "update_loop (w\<lparr>heap := (heap w)(b := p')\<rparr>) ps x opt i = (w1, Inr j)
          \<Longrightarrow> heap w1 a = heap w a" for p' i
        using Cons.IH [of "w\<lparr>heap := (heap w)(b := p')\<rparr>" i] Cons.prems(2,3) False by simp
      from Cons.prems(1) Ref Cons.IH [OF _ Cons.prems(2,3), of idx] step show ?thesis
        by (auto simp: Let_def split: sum.splits if_splits)
    qed
  qed
qed

lemma fill_unknown_key:
  "key \<noteq> ''value'' \<Longrightarrow> key \<noteq> ''min_bound'' \<Longrightarrow> key \<noteq> ''max_bound'' \<Longrightarrow>
   snd (compute_length w ps opt k) = Inr n \<Longrightarrow> k < n \<Longrightarrow>
     fill tf (heap w) ps opt key out idx = Inr (Return ValueErrorClass)"
proof (induction ps arbitrary: w k)
  case Nil
  then show ?case by simp
next
  case (Cons e ps)
  show ?case
  proof (cases e)
    case NonParam
    with Cons.prems Cons.IH [of "warn w not_parameter_warning" k] show ?thesis by simp
  next
    case (Ref b)
    with Cons.prems Cons.IH [of w k] show ?thesis
      by (auto simp: Let_def select_store_def split: sum.splits if_splits)
  qed
qed

lemma shape_valid_cases:
  assumes "shape_valid p"
  obtains f where "cls p = ScalarParameterC" "p_value p = PyFloat f"
  | xs where "cls p \<noteq> ScalarParameterC" "p_value p = NdArray xs" "xs \<noteq> []"
proof -
  have "xs \<noteq> []" if "length xs = 3" for xs :: "pyfloat list"
    using that by auto
  with assms that show ?thesis
    by (auto simp: shape_valid_def split: pyval.splits cls.splits)
qed

lemma shape_valid_len:
  "shape_valid p \<Longrightarrow> Parameter_len p = Inr (length (flat_of (p_value p)))"
  by (erule shape_valid_cases) (simp_all add: Parameter_len_def)

lemma shape_valid_nonempty: "shape_valid p \<Longrightarrow> flat_of (p_value p) \<noteq> []"
  by (erule shape_valid_cases) simp_all

lemma shape_valid_store:
  "shape_valid p \<Longrightarrow> select_store p ''value'' = Inr (Some (p_value p))"
  by (erule shape_valid_cases) (simp_all add: select_store_def Parameter_value_def)

lemma shape_valid_broadcast:
  "shape_valid p \<Longrightarrow>
     np_broadcast tf (p_value p) (length (flat_of (p_value p))) = Inr (flat_of (p_value p))"
  by (erule shape_valid_cases) simp_all

lemma shape_valid_set_value:
  "shape_valid p \<Longrightarrow> set_value p (NdArray (flat_of (p_value p))) = Inr p"
  by (erule shape_valid_cases)
     (auto simp: set_value_def ScalarParameter_set_value_def split: cls.splits)

lemma compute_length_valid:
  "list_all (valid_entry (heap w) opt) ps \<Longrightarrow>
     snd (compute_length w ps opt k) = Inr (k + length (spec_flat_vector (heap w) ps opt))"
proof (induction ps arbitrary: w k)
  case Nil
  then show ?case by simp
next
  case (Cons e ps)
  show ?case
  proof (cases e)
    case NonParam
    with Cons.prems Cons.IH [of "warn w not_parameter_warning" k] show ?thesis by simp
  next
    case (Ref a)
    with Cons.prems Cons.IH [of w] show ?thesis
      by (auto simp: Let_def included_def shape_valid_len split: if_splits)
  qed
qed

lemma setslice_append:
  "np_broadcast tf v (length vals) = Inr vals \<Longrightarrow> length vals \<le> length rest \<Longrightarrow>
     np_setslice tf (pre @ rest) (length pre) (length pre + length vals) v =
       Inr ((pre @ vals) @ drop (length vals) rest)"
  by (simp add: np_setslice_def slice_def min_absorb2)

lemma fill_valid:
  "list_all (valid_entry h opt) ps \<Longrightarrow> length rest = length (spec_flat_vector h ps opt) \<Longrightarrow>
     fill tf h ps opt ''value'' (pre @ rest) (length pre) =
       Inr (Done (pre @ spec_flat_vector h ps opt)
              (length pre + length (spec_flat_vector h ps opt)))"
proof (induction ps arbitrary: pre rest)
  case Nil
  then show ?case by simp
next
  case (Cons e ps)
  show ?case
  proof (cases e)
    case NonParam
    with Cons.prems Cons.IH [of rest pre] show ?thesis by simp
  next
    case (Ref a)
    show ?thesis
    proof (cases "included opt (h a)")
      case False
      with Ref Cons.prems Cons.IH [of rest pre] show ?thesis
        by (auto simp: included_def split: if_splits)
    next
      case True
      let ?vals = "flat_of (p_value (h a))"
      from True Ref Cons.prems have v: "shape_valid (h a)"
        and rest_ps: "list_all (valid_entry h opt) ps" by simp_all
      from True Ref Cons.prems(2)
      have len: "length rest = length ?vals + length (spec_flat_vector h ps opt)" by simp
      then have le: "length ?vals \<le> length rest" by simp
      from len have "length (drop (length ?vals) rest) = length (spec_flat_vector h ps opt)"
        by simp
      from Cons.IH [OF rest_ps this, of "pre @ ?vals"]
      have ih: "fill tf h ps opt ''value'' ((pre @ ?vals) @ drop (length ?vals) rest)
                  (length pre + length ?vals) =
                Inr (Done ((pre @ ?vals) @ spec_flat_vector h ps opt)
                  (length pre + length ?vals + length (spec_flat_vector h ps opt)))"
        by simp
      from True have skip: "(opt \<and> \<not> optimize (h a)) = False" by (auto simp: included_def)
      show ?thesis
        using Ref True ih
          setslice_append [OF shape_valid_broadcast [OF v] le, of tf pre]
        by (simp add: Let_def skip shape_valid_len [OF v] shape_valid_store [OF v] add.assoc)
    qed
  qed
qed

lemma heap_update_same [simp]: "w\<lparr>heap := (heap w)(a := heap w a)\<rparr> = w"
  by simp

lemma update_loop_valid:
  "list_all (valid_entry (heap w) opt) ps \<Longrightarrow>
     update_loop w ps (NdArray (pre @ spec_flat_vector (heap w) ps opt)) opt (length pre) =
       (w, Inr (length pre + length (spec_flat_vector (heap w) ps opt)))"
proof (induction ps arbitrary: pre)
  case Nil
  then show ?case by simp
next
  case (Cons e ps)
  show ?case
  proof (cases e)
    case NonParam
    with Cons.prems Cons.IH [of pre] show ?thesis by simp
  next
    case (Ref a)
    show ?thesis
    proof (cases "included opt (heap w a)")
      case False
      with Ref Cons.prems Cons.IH [of pre] show ?thesis
        by (auto simp: included_def split: if_splits)
    next
      case True
      let ?vals = "flat_of (p_value (heap w a))"
      from True Ref Cons.prems have v: "shape_valid (heap w a)"
        and rest_ps: "list_all (valid_entry (heap w) opt) ps" by simp_all
      from True have skip: "(opt \<and> \<not> optimize (heap w a)) = False" by (auto simp: included_def)
      have ne: "?vals \<noteq> []" using v by (rule shape_valid_nonempty)
      have sl: "slice (pre @ ?vals @ spec_flat_vector (heap w) ps opt) (length pre)
                  (length pre + length ?vals) = ?vals"
        by (simp add: slice_def)
      show ?thesis
        using Ref True ne sl Cons.IH [OF rest_ps, of "pre @ ?vals"]
        by (simp add: Let_def skip shape_valid_len [OF v] shape_valid_set_value [OF v] add.assoc)
    qed
  qed
qed

lemma update_loop_nothing_included:
  "list_all (valid_entry (heap w) opt) ps \<Longrightarrow> spec_flat_vector (heap w) ps opt = [] \<Longrightarrow>
     update_loop w ps x opt idx = (w, Inr idx)"
proof (induction ps)
  case Nil
  then show ?case by simp
next
  case (Cons e ps)
  then show ?case
    by (cases e) (auto simp: Let_def included_def dest: shape_valid_nonempty split: if_splits)
qed

lemma update_loop_mono: "update_loop w ps x opt i = (w1, Inr j) \<Longrightarrow> i \<le> j"
proof (induction ps arbitrary: w i)
  case Nil
  then show ?case by simp
next
  case (Cons e ps)
  show ?case
  proof (cases e)
    case NonParam
    with Cons show ?thesis by simp
  next
    case (Ref a)
    have step: "update_loop w' ps x opt (i + m) = (w1, Inr j) \<Longrightarrow> i \<le> j" for w' m
      using Cons.IH [of w' "i + m"] by simp
    from Cons.prems Ref Cons.IH [of w i] step show ?thesis
      by (auto simp: Let_def split: sum.splits if_splits)
  qed
qed

lemma compute_length_snd_cong_len:
  "(\<And>b. Parameter_len (heap w b) = Parameter_len (heap w' b)) \<Longrightarrow>
   (\<And>b. optimize (heap w b) = optimize (heap w' b)) \<Longrightarrow>
     snd (compute_length w ps opt k) = snd (compute_length w' ps opt k)"
proof (induction ps arbitrary: w w' k)
  case Nil
  then show ?case by simp
next
  case (Cons e ps)
  show ?case
  proof (cases e)
    case (Ref a)
    with Cons.prems [of a] Cons.IH [of w w', OF Cons.prems] show ?thesis
      by (auto simp: Let_def split: sum.splits)
  next
    case NonParam
    have "snd (compute_length (warn w not_parameter_warning) ps opt k) =
          snd (compute_length (warn w' not_parameter_warning) ps opt k)"
      by (rule Cons.IH) (simp_all add: Cons.prems)
    with NonParam show ?thesis by simp
  qed
qed

lemma length_slice: "i + m \<le> length xs \<Longrightarrow> length (slice xs i (i + m)) = m"
  by (simp add: slice_def)

lemma set_value_optimize: "set_value p s = Inr p' \<Longrightarrow> optimize p' = optimize p"
  by (auto simp: set_value_def ScalarParameter_set_value_def
        split: cls.splits if_splits sum.splits pyval.splits)

lemma set_value_slice_len:
  assumes "set_value p s = Inr p'" and "py_getslice x i (i + m) = Inr s"
    and "py_len x = Inr n" and "i + m \<le> n" and "Parameter_len p = Inr m"
    and "\<not> py_is_text x"
  shows "Parameter_len p' = Inr m"
proof (cases x)
  case (NdArray xs)
  with assms(2,3,4) have s: "s = NdArray (slice xs i (i + m))"
    and l: "length (slice xs i (i + m)) = m" by (auto simp: length_slice)
  show ?thesis
  proof (cases "cls p = ScalarParameterC")
    case True
    with assms(1) s obtain f where "slice xs i (i + m) = [f]" "p' = p\<lparr>p_value := PyFloat f\<rparr>"
      by (cases "slice xs i (i + m)" rule: ndarray_item.cases)
         (auto simp: set_value_def ScalarParameter_set_value_def)
    with l show ?thesis by (auto simp: Parameter_len_def)
  next
    case False
    with assms(1) s have "p' = p\<lparr>p_value := NdArray (slice xs i (i + m))\<rparr>"
      by (auto simp: set_value_def split: cls.splits)
    with l show ?thesis by (simp add: Parameter_len_def)
  qed
next
  case (PyList xs)
  with assms(2,3,4) have s: "s = PyList (slice xs i (i + m))"
    and l: "length (slice xs i (i + m)) = m" by (auto simp: length_slice)
  show ?thesis
  proof (cases "cls p = ScalarParameterC")
    case True
    with assms(1) s show ?thesis
      by (auto simp: set_value_def ScalarParameter_set_value_def)
  next
    case False
    with assms(1) s have "p' = p\<lparr>p_value := PyList (slice xs i (i + m))\<rparr>"
      by (auto simp: set_value_def split: cls.splits)
    with l show ?thesis by (simp add: Parameter_len_def)
  qed
qed (use assms(3,6) in simp_all)

lemma update_loop_success_length:
  "update_loop w ps x opt i = (w1, Inr j) \<Longrightarrow> py_len x = Inr n \<Longrightarrow> j \<le> n \<Longrightarrow>
   \<not> py_is_text x \<Longrightarrow>
     snd (compute_length w ps opt k) = Inr (k + (j - i))"
proof (induction ps arbitrary: w i k)
  case Nil
  then show ?case by simp
next
  case (Cons e ps)
  show ?case
  proof (cases e)
    case NonParam
    have "snd (compute_length (warn w not_parameter_warning) ps opt k) =
          snd (compute_length w ps opt k)"
      by (rule compute_length_snd_cong) simp
    with NonParam Cons.prems Cons.IH [of w i k] show ?thesis by simp
  next
    case (Ref a)
    show ?thesis
    proof (cases "opt \<and> \<not> optimize (heap w a)")
      case True
      with Ref Cons.prems Cons.IH [of w i k] show ?thesis by (simp add: Let_def)
    next
      case False
      with Ref Cons.prems(1) obtain m s p' where
        len: "Parameter_len (heap w a) = Inr m" and
        sl: "py_getslice x i (i + m) = Inr s" and
        sv: "set_value (heap w a) s = Inr p'" and
        rest: "update_loop (w\<lparr>heap := (heap w)(a := p')\<rparr>) ps x opt (i + m) = (w1, Inr j)"
        by (auto simp: Let_def split: sum.splits if_splits)
      let ?w' = "w\<lparr>heap := (heap w)(a := p')\<rparr>"
      from update_loop_mono [OF rest] Cons.prems(3) have le: "i + m \<le> j" "i + m \<le> n" by simp_all
      from set_value_slice_len [OF sv sl Cons.prems(2) le(2) len Cons.prems(4)]
      have len': "Parameter_len p' = Inr m" .
      have "snd (compute_length w ps opt (k + m)) = snd (compute_length ?w' ps opt (k + m))"
        by (rule compute_length_snd_cong_len) (auto simp: len len' set_value_optimize [OF sv])
      also from Cons.IH [OF rest Cons.prems(2,3,4), of "k + m"]
      have "\<dots> = Inr (k + m + (j - (i + m)))" .
      finally have "snd (compute_length w ps opt (k + m)) = Inr (k + m + (j - (i + m)))" .
      moreover from False have skip: "(opt \<and> \<not> optimize (heap w a)) = False" by simp
      ultimately show ?thesis using Ref len le by (simp add: Let_def skip)
    qed
  qed
qed

lemma update_loop_stuck:
  "Ref a \<in> set ps \<Longrightarrow> included opt (heap w a) \<Longrightarrow>
   Parameter_len (heap w a) = Inl e0 \<or> Parameter_len (heap w a) = Inr 0 \<Longrightarrow>
     \<exists>e. snd (update_loop w ps x opt idx) = Inl e"
proof (induction ps arbitrary: w idx)
  case Nil
  then show ?case by simp
next
  case (Cons e ps)
  show ?case
  proof (cases e)
    case NonParam
    with Cons.prems Cons.IH [of w idx] show ?thesis by simp
  next
    case (Ref b)
    show ?thesis
    proof (cases "b = a")
      case True
      with Ref Cons.prems show ?thesis
        by (auto simp: Let_def included_def split: if_splits)
    next
      case False
      with Ref Cons.prems have in_rest: "Ref a \<in> set ps" by simp
      have step: "\<exists>e. snd (update_loop (w\<lparr>heap := (heap w)(b := p')\<rparr>) ps x opt j) = Inl e" for p' j
        using Cons.IH [OF in_rest, of "w\<lparr>heap := (heap w)(b := p')\<rparr>" j] Cons.prems(2,3) False
        by simp
      from Cons.IH [OF in_rest Cons.prems(2,3), of idx] step Ref show ?thesis
        by (auto simp: Let_def split: sum.splits)
    qed
  qed
qed

lemma shape_valid_numeric: "shape_valid p \<Longrightarrow> numeric_value p"
  by (erule shape_valid_cases) (simp_all add: numeric_value_def)

lemma numeric_value_len: "numeric_value p \<Longrightarrow> \<exists>m. Parameter_len p = Inr m"
  by (auto simp: numeric_value_def Parameter_len_def split: pyval.splits)

lemma numeric_value_set_value:
  "numeric_value p \<Longrightarrow> set_value p (NdArray s) \<noteq> Inl TypeError"
  by (cases s rule: ndarray_item.cases)
     (auto simp: set_value_def ScalarParameter_set_value_def split: cls.splits)

lemma set_value_numeric:
  "numeric_value p \<Longrightarrow> set_value p (NdArray s) = Inr p' \<Longrightarrow> numeric_value p'"
  by (cases s rule: ndarray_item.cases)
     (auto simp: set_value_def ScalarParameter_set_value_def numeric_value_def
        split: cls.splits pyval.splits)

lemma update_loop_no_type_error:
  "(\<And>b. Ref b \<in> set ps \<Longrightarrow> included opt (heap w b) \<Longrightarrow> numeric_value (heap w b)) \<Longrightarrow>
     snd (update_loop w ps (NdArray xs) opt i) \<noteq> Inl TypeError"
proof (induction ps arbitrary: w i)
  case Nil
  then show ?case by simp
next
  case (Cons e ps)
  show ?case
  proof (cases e)
    case NonParam
    with Cons.prems Cons.IH [of w i] show ?thesis by simp
  next
    case (Ref a)
    show ?thesis
    proof (cases "included opt (heap w a)")
      case False
      then have skip: "(opt \<and> \<not> optimize (heap w a)) = True"
        by (auto simp: included_def split: if_splits)
      from Ref Cons.prems Cons.IH [of w i] show ?thesis by (simp add: Let_def skip)
    next
      case True
      then have skip: "(opt \<and> \<not> optimize (heap w a)) = False" by (auto simp: included_def)
      from True Ref Cons.prems have nv: "numeric_value (heap w a)" by simp
      then obtain m where len: "Parameter_len (heap w a) = Inr m"
        using numeric_value_len by blast
      let ?s = "slice xs i (i + m)"
      show ?thesis
      proof (cases "set_value (heap w a) (NdArray ?s)")
        case (Inl err)
        with numeric_value_set_value [OF nv, of ?s] have "err \<noteq> TypeError" by auto
        with Inl Ref len show ?thesis by (simp add: Let_def skip)
      next
        case (Inr p')
        let ?w' = "w\<lparr>heap := (heap w)(a := p')\<rparr>"
        have nv': "numeric_value p'" using nv Inr by (rule set_value_numeric)
        have opt': "optimize p' = optimize (heap w a)" using Inr by (rule set_value_optimize)
        have "snd (update_loop ?w' ps (NdArray xs) opt (i + m)) \<noteq> Inl TypeError"
        proof (rule Cons.IH)
          fix b assume b: "Ref b \<in> set ps" "included opt (heap ?w' b)"
          show "numeric_value (heap ?w' b)"
          proof (cases "b = a")
            case True
            with nv' show ?thesis by simp
          next
            case False
            with b Cons.prems [of b] show ?thesis by simp
          qed
        qed
        with Inr Ref len show ?thesis by (simp add: Let_def skip)
      qed
    qed
  qed
qed

lemma update_params_error_kind:
  assumes "list_all (valid_entry (heap w) opt) ps"
  shows "snd (update_params w ps (NdArray xs) opt) \<noteq> Some TypeError"
proof -
  have "numeric_value (heap w b)" if "Ref b \<in> set ps" "included opt (heap w b)" for b
  proof -
    from assms that(1) have "valid_entry (heap w) opt (Ref b)"
      unfolding list_all_iff by blast
    with that(2) show ?thesis by (simp add: shape_valid_numeric)
  qed
  from update_loop_no_type_error [of ps opt w xs 0, OF this] show ?thesis
    by (cases "update_loop w ps (NdArray xs) opt 0")
       (auto simp: update_params_def split: sum.splits)
qed

text \<open>
  A \<^verbatim>\<open>str\<close> passed as the flat vector is sliced like a sequence, but each slice is a
  scalar of length 1: the vector of length 3 at address 2, listed twice, asks for 6
  slots, and the text of 4 characters is accepted.
\<close>

lemma update_params_text_is_no_vector:
  "compute_length scenario_world [Ref 2, Ref 2] True 0 = (scenario_world, Inr 6)
   \<and> py_len (PyStr ''abcd'') = Inr 4
   \<and> snd (update_params scenario_world [Ref 2, Ref 2] (PyStr ''abcd'') True) = None"
  by (simp add: example_defs eval_defs)

section \<open>Properties of the calibration loop\<close>

text \<open>The body of the \<^verbatim>\<open>try\<close> does raise when a comparison raises.\<close>

lemma compare_geometry_raises:
  "assert_almost_equal (source g1) (source g2) 3 = Some e \<Longrightarrow>
     compare_geometry assert_almost_equal g1 g2 = Some e"
  by (simp add: compare_geometry_def)

lemma validation_loop_None: "validation_loop aae gs = None"
  by (induction gs) (auto simp: try_compare_def split: option.splits)

lemma iterate_calls:
  "iterate tri cal data k s = (s', None) \<Longrightarrow>
     calls s' = calls s @ concat (replicate k [Triangulate, Calibrate]) \<and>
     (0 < k \<longrightarrow> markers s' \<noteq> None)"
proof (induction k arbitrary: s)
  case 0
  then show ?case by simp
next
  case (Suc k)
  from Suc.prems obtain m g where
    m: "tri (geoms s) data = Inr m" and g: "cal (geoms s) m data = Inr g"
    and rest: "iterate tri cal data k
        (s\<lparr>calls := calls s @ [Triangulate], markers := Some m,
           calls := calls s @ [Triangulate] @ [Calibrate], geoms := g\<rparr>) = (s', None)"
    by (auto simp: Let_def split: sum.splits)
  from Suc.IH [OF rest] show ?case
    by (cases k) (use rest in auto)
qed

lemma iterate_total:
  "(\<forall>g. \<exists>m. tri g data = Inr m) \<Longrightarrow> (\<forall>g m. \<exists>g'. cal g m data = Inr g') \<Longrightarrow>
     \<exists>s'. iterate tri cal data k s = (s', None)"
proof (induction k arbitrary: s)
  case 0
  then show ?case by simp
next
  case (Suc k)
  from Suc.prems(1) obtain m where m: "tri (geoms s) data = Inr m" by blast
  from Suc.prems(2) obtain g where g: "cal (geoms s) m data = Inr g" by blast
  show ?case using Suc.IH [OF Suc.prems] m g by (simp add: Let_def)
qed

section \<open>The claims\<close>

text \<open>
  Claim C1 (round trip). For every collection of parameters and placeholders in which
  each included parameter stores a concrete value of the shape of its class,
  \<open>params2ndarray\<close> returns the flat vector of the specification (the values of the
  included entries in collection order, the empty list when nothing is included), and
  \<open>update_params\<close> with that vector succeeds and leaves the whole state as it was:
  every included parameter has exactly the value that was packed, every excluded one is
  untouched.
\<close>

theorem pack_unpack_round_trip:
  assumes "list_all (valid_entry (heap w) opt) ps"
  shows "\<exists>w1 x. params2ndarray w ps opt ''value'' = (w1, Inr x)
           \<and> heap w1 = heap w
           \<and> x = (if spec_flat_vector (heap w) ps opt = [] then PyList []
                  else NdArray (spec_flat_vector (heap w) ps opt))
           \<and> update_params w1 ps x opt = (w1, None)"
proof -
  let ?flat = "spec_flat_vector (heap w) ps opt"
  obtain w1 r where c: "compute_length w ps opt 0 = (w1, r)"
    by (cases "compute_length w ps opt 0")
  from compute_length_valid [OF assms, of 0] c have r: "r = Inr (length ?flat)" by simp
  from c have h: "heap w1 = heap w" using compute_length_heap [of w ps opt 0] by simp
  from c have t: "text_to_float w1 = text_to_float w"
    using compute_length_text [of w ps opt 0] by simp
  from assms h have valid1: "list_all (valid_entry (heap w1) opt) ps" by simp
  show ?thesis
  proof (cases "?flat = []")
    case True
    from c r True have "params2ndarray w ps opt ''value'' = (w1, Inr (PyList []))"
      by (simp add: params2ndarray_def)
    moreover from update_loop_nothing_included [OF valid1, of "PyList []" 0] True h
    have "update_params w1 ps (PyList []) opt = (w1, None)"
      by (simp add: update_params_def)
    ultimately show ?thesis using True h by simp
  next
    case False
    have "fill (text_to_float w) (heap w) ps opt ''value'' ([] @ np_empty (length ?flat))
            (length ([]::pyfloat list)) =
            Inr (Done ([] @ ?flat) (length ([]::pyfloat list) + length ?flat))"
      by (rule fill_valid [OF assms]) (simp add: np_empty_def)
    with c r False h t have "params2ndarray w ps opt ''value'' = (w1, Inr (NdArray ?flat))"
      by (simp add: params2ndarray_def)
    moreover from update_loop_valid [OF valid1, of "[]"] h
    have "update_params w1 ps (NdArray ?flat) opt = (w1, None)"
      by (simp add: update_params_def)
    ultimately show ?thesis using False h by simp
  qed
qed

theorem pack_unpack_round_trip_witness:
  "list_all (valid_entry (heap scenario_world) True) (NonParam # scenario_params)
   \<and> (\<exists>w1 x. params2ndarray scenario_world (NonParam # scenario_params) True ''value'' = (w1, Inr x)
        \<and> heap w1 = heap scenario_world
        \<and> update_params w1 (NonParam # scenario_params) x True = (w1, None))"
proof -
  have h: "list_all (valid_entry (heap scenario_world) True) (NonParam # scenario_params)"
    by (simp add: example_defs eval_defs)
  from pack_unpack_round_trip [OF h] h show ?thesis by blast
qed

text \<open>
  Claim C2 (length mismatch), as amended. \<open>update_params\<close> with a flat vector whose
  length differs from the sum of the lengths of the included entries never succeeds;
  for a collection of well-shaped parameters and an array the exception is an
  AssertionError (of the final check, or of the check of the length inside the loop
  when a repeated parameter has been handed an empty slice before) or the ValueError of
  a scalar parameter that is handed a slice without exactly one element. An included
  entry of length 0 makes the call fail as well. The values of the parameters after the
  failure are not part of the statement. The flat vector is any object but a
  \<^verbatim>\<open>str\<close> or \<^verbatim>\<open>bytes\<close>: a text is no vector of numbers, and its slices are scalars
  of length 1 whatever their size (see \<open>update_params_text_is_no_vector\<close> above).
\<close>

theorem update_params_length_mismatch_fails:
  "(compute_length w ps opt 0 = (w0, Inr n) \<and> py_len x \<noteq> Inr n \<and> \<not> py_is_text x \<longrightarrow>
      (\<exists>e. snd (update_params w ps x opt) = Some e))
   \<and> (list_all (valid_entry (heap w) opt) ps \<and>
        length xs \<noteq> length (spec_flat_vector (heap w) ps opt) \<longrightarrow>
        snd (update_params w ps (NdArray xs) opt) = Some AssertionError \<or>
        snd (update_params w ps (NdArray xs) opt) = Some ValueError)
   \<and> (Ref a \<in> set ps \<and> included opt (heap w a) \<and> Parameter_len (heap w a) = Inr 0 \<longrightarrow>
        (\<exists>e. snd (update_params w ps x opt) = Some e))"
proof (intro conjI impI)
  have mismatch: "\<exists>e. snd (update_params w ps x opt) = Some e"
    if c: "snd (compute_length w ps opt 0) = Inr n" and x: "py_len x \<noteq> Inr n"
      and nt: "\<not> py_is_text x" for x n
  proof (rule ccontr)
    assume "\<not> ?thesis"
    then have none: "snd (update_params w ps x opt) = None" by simp
    then obtain w1 j where l: "update_loop w ps x opt 0 = (w1, Inr j)" and xj: "py_len x = Inr j"
      by (auto simp: update_params_def split: prod.splits sum.splits if_splits)
    from update_loop_success_length [OF l xj _ nt, of 0] c have "n = j" by simp
    with x xj show False by simp
  qed
  {
    assume "compute_length w ps opt 0 = (w0, Inr n) \<and> py_len x \<noteq> Inr n \<and> \<not> py_is_text x"
    then show "\<exists>e. snd (update_params w ps x opt) = Some e"
      using mismatch [of n x] by simp
  }
  {
    assume a: "list_all (valid_entry (heap w) opt) ps \<and>
        length xs \<noteq> length (spec_flat_vector (heap w) ps opt)"
    then have "snd (compute_length w ps opt 0) = Inr (length (spec_flat_vector (heap w) ps opt))"
      using compute_length_valid [of w opt ps 0] by simp
    from mismatch [OF this, of "NdArray xs"] a
    obtain e where e: "snd (update_params w ps (NdArray xs) opt) = Some e" by auto
    moreover from a update_params_error_kind [of w opt ps xs] e have "e \<noteq> TypeError" by auto
    ultimately show "snd (update_params w ps (NdArray xs) opt) = Some AssertionError \<or>
        snd (update_params w ps (NdArray xs) opt) = Some ValueError"
      by (cases e) simp_all
  }
  {
    assume a: "Ref a \<in> set ps \<and> included opt (heap w a) \<and> Parameter_len (heap w a) = Inr 0"
    then obtain e where "snd (update_loop w ps x opt 0) = Inl e"
      using update_loop_stuck [of a ps opt w _ x 0] by blast
    then show "\<exists>e. snd (update_params w ps x opt) = Some e"
      by (cases "update_loop w ps x opt 0") (simp add: update_params_def)
  }
qed

theorem update_params_length_mismatch_fails_witness:
  "compute_length scenario_world scenario_params True 0 = (scenario_world, Inr 5)
   \<and> py_len (NdArray [Fin 9, Fin (- 9), Fin 7, Fin 8]) \<noteq> Inr 5
   \<and> \<not> py_is_text (NdArray [Fin 9, Fin (- 9), Fin 7, Fin 8])
   \<and> list_all (valid_entry (heap scenario_world) True) scenario_params
   \<and> length [Fin 9, Fin (- 9), Fin 7, Fin 8] \<noteq>
       length (spec_flat_vector (heap scenario_world) scenario_params True)
   \<and> (snd (update_params scenario_world scenario_params
              (NdArray [Fin 9, Fin (- 9), Fin 7, Fin 8]) True) = Some AssertionError
      \<or> snd (update_params scenario_world scenario_params
              (NdArray [Fin 9, Fin (- 9), Fin 7, Fin 8]) True) = Some ValueError)
   \<and> Ref 1 \<in> set [Ref 1] \<and> included True (heap unset_world 1)
   \<and> Parameter_len (heap unset_world 1) = Inr 0
   \<and> (\<exists>e. snd (update_params unset_world [Ref 1] (NdArray []) True) = Some e)"
proof -
  have h1: "compute_length scenario_world scenario_params True 0 = (scenario_world, Inr 5)"
    by (simp add: example_defs eval_defs)
  have h2: "py_len (NdArray [Fin 9, Fin (- 9), Fin 7, Fin 8]) \<noteq> Inr 5"
    "\<not> py_is_text (NdArray [Fin 9, Fin (- 9), Fin 7, Fin 8])" by simp_all
  have h3: "list_all (valid_entry (heap scenario_world) True) scenario_params"
    by (simp add: example_defs eval_defs)
  have h4: "length [Fin 9, Fin (- 9), Fin 7, Fin 8] \<noteq>
       length (spec_flat_vector (heap scenario_world) scenario_params True)"
    by (simp add: example_defs eval_defs)
  have h5: "Ref 1 \<in> set [Ref 1] \<and> included True (heap unset_world 1)
      \<and> Parameter_len (heap unset_world 1) = Inr 0"
    by (simp add: example_defs eval_defs)
  from h1 h2 h3 h4 h5
    update_params_length_mismatch_fails [of scenario_world scenario_params True scenario_world 5
      "NdArray [Fin 9, Fin (- 9), Fin 7, Fin 8]" "[Fin 9, Fin (- 9), Fin 7, Fin 8]" 1]
    update_params_length_mismatch_fails [of unset_world "[Ref 1]" True unset_world 0
      "NdArray []" "[]" 1]
  show ?thesis by blast
qed

text \<open>
  The claim as written fails: with the vector one element short, the call raises, but
  the scalar at address 0 already has its new value and the vector at address 2 has
  been given a truncated slice of two elements.
\<close>

theorem update_params_partial_update:
  "update_params scenario_world [Ref 0, Ref 2] (NdArray [Fin 9, Fin 7, Fin 8]) True =
     (scenario_world\<lparr>heap := scenario_heap
        (0 := scalar_a\<lparr>p_value := PyFloat (Fin 9)\<rparr>,
         2 := vector_c\<lparr>p_value := NdArray [Fin 7, Fin 8]\<rparr>)\<rparr>,
      Some AssertionError)
   \<and> p_value (heap scenario_world 0) = PyFloat (Fin 2)
   \<and> p_value (heap scenario_world 2) = NdArray [Fin 1, Fin 2, Fin 3]"
  by (simp add: example_defs eval_defs)

text \<open>
  Claim C3 (end-to-end scenario). Two optimizable scalars 2.0 and -1.0, the optimizable
  vector [1, 2, 3] (built from a list by the constructor) and the non-optimizable scalar
  5.0 pack to [2.0, -1.0, 1, 2, 3]; unpacking [9.0, -9.0, 7, 8, 9] succeeds, the three
  optimizable parameters then read 9.0, -9.0 and [7, 8, 9] and the fourth still 5.0.
\<close>

theorem end_to_end_scenario:
  "VectorParameter_init (PyList [Fin 1, Fin 2, Fin 3]) True None = Inr vector_c
   \<and> params2ndarray scenario_world scenario_params True ''value'' =
       (scenario_world, Inr (NdArray [Fin 2, Fin (- 1), Fin 1, Fin 2, Fin 3]))
   \<and> update_params scenario_world scenario_params scenario_x True = (scenario_after, None)
   \<and> Parameter_value (heap scenario_after 0) = Inr (PyFloat (Fin 9))
   \<and> Parameter_value (heap scenario_after 1) = Inr (PyFloat (Fin (- 9)))
   \<and> Parameter_value (heap scenario_after 2) = Inr (NdArray [Fin 7, Fin 8, Fin 9])
   \<and> Parameter_value (heap scenario_after 3) = Inr (PyFloat (Fin 5))"
  by (simp add: example_defs eval_defs fun_upd_twist)

text \<open>
  Claim C4 (non-parameter entries), as amended. An entry that is no \<^verbatim>\<open>Parameter\<close> is
  skipped by both operations: the result of \<open>params2ndarray\<close> and the whole outcome of
  \<open>update_params\<close> are those of the collection without such entries, and no parameter
  is changed by packing. Only \<open>params2ndarray\<close> warns: a call that does not raise, and
  any call whose length pass has completed, has issued exactly one warning for each
  such entry. \<open>update_params\<close> issues none.
\<close>

theorem non_parameter_entries_skipped:
  "snd (params2ndarray w ps opt key) = snd (params2ndarray w (filter is_param ps) opt key)
   \<and> heap (fst (params2ndarray w ps opt key)) = heap w
   \<and> ((\<exists>v. snd (params2ndarray w ps opt key) = Inr v) \<longrightarrow>
        warnings (fst (params2ndarray w ps opt key)) =
          warnings w @ replicate (length (filter (\<lambda>e. \<not> is_param e) ps)) not_parameter_warning)
   \<and> ((\<exists>n. snd (compute_length w ps opt 0) = Inr n) \<longrightarrow>
        warnings (fst (params2ndarray w ps opt key)) =
          warnings w @ replicate (length (filter (\<lambda>e. \<not> is_param e) ps)) not_parameter_warning)
   \<and> update_params w ps x opt = update_params w (filter is_param ps) x opt
   \<and> warnings (fst (update_params w ps x opt)) = warnings w"
proof (intro conjI impI)
  show "snd (params2ndarray w ps opt key) = snd (params2ndarray w (filter is_param ps) opt key)"
    unfolding params2ndarray_snd compute_length_filter fill_filter by (rule refl)
  show "heap (fst (params2ndarray w ps opt key)) = heap w"
    by (simp add: params2ndarray_fst compute_length_heap)
  show "update_params w ps x opt = update_params w (filter is_param ps) x opt"
    by (simp add: update_params_def update_loop_filter)
  show "warnings (fst (update_params w ps x opt)) = warnings w"
    by (simp add: update_params_fst update_loop_warnings)
next
  assume "\<exists>v. snd (params2ndarray w ps opt key) = Inr v"
  then obtain w1 n where c: "compute_length w ps opt 0 = (w1, Inr n)"
    by (cases "compute_length w ps opt 0"; cases "snd (compute_length w ps opt 0)")
       (auto simp: params2ndarray_snd)
  from compute_length_warnings [OF c] c
  show "warnings (fst (params2ndarray w ps opt key)) =
          warnings w @ replicate (length (filter (\<lambda>e. \<not> is_param e) ps)) not_parameter_warning"
    by (simp add: params2ndarray_fst)
next
  assume "\<exists>n. snd (compute_length w ps opt 0) = Inr n"
  then obtain w1 n where c: "compute_length w ps opt 0 = (w1, Inr n)"
    by (cases "compute_length w ps opt 0") auto
  from compute_length_warnings [OF c] c
  show "warnings (fst (params2ndarray w ps opt key)) =
          warnings w @ replicate (length (filter (\<lambda>e. \<not> is_param e) ps)) not_parameter_warning"
    by (simp add: params2ndarray_fst)
qed

theorem non_parameter_entries_skipped_witness:
  "(\<exists>v. snd (params2ndarray scenario_world mixed_params True ''value'') = Inr v)
   \<and> (\<exists>n. snd (compute_length scenario_world mixed_params True 0) = Inr n)
   \<and> snd (params2ndarray scenario_world mixed_params True ''value'') =
       snd (params2ndarray scenario_world [Ref 0, Ref 2] True ''value'')
   \<and> warnings (fst (params2ndarray scenario_world mixed_params True ''value'')) =
       [not_parameter_warning]
   \<and> update_params scenario_world mixed_params scenario_x True =
       update_params scenario_world [Ref 0, Ref 2] scenario_x True
   \<and> warnings (fst (update_params scenario_world mixed_params scenario_x True)) = []"
proof -
  have h: "\<exists>v. snd (params2ndarray scenario_world mixed_params True ''value'') = Inr v"
    "\<exists>n. snd (compute_length scenario_world mixed_params True 0) = Inr n"
    by (simp_all add: example_defs eval_defs)
  have f: "filter is_param mixed_params = [Ref 0, Ref 2]"
    "length (filter (\<lambda>e. \<not> is_param e) mixed_params) = 1"
    "warnings scenario_world = []"
    "[] @ replicate 1 not_parameter_warning = [not_parameter_warning]"
    by (simp_all add: mixed_params_def scenario_world_def)
  from h non_parameter_entries_skipped [of scenario_world mixed_params True "''value''" scenario_x]
  show ?thesis unfolding f by blast
qed

text \<open>
  The claim as written fails for \<open>update_params\<close>: on a collection that holds a
  non-parameter object it returns normally and has issued no warning.
\<close>

theorem update_params_issues_no_warning:
  "update_params scenario_world [NonParam] (PyList []) True = (scenario_world, None)
   \<and> warnings scenario_world = []"
  by (simp add: example_defs eval_defs)

text \<open>
  Claim C5 (scalar assignment), as amended. Assigning to a \<^verbatim>\<open>ScalarParameter\<close> succeeds
  exactly for \<^verbatim>\<open>None\<close>, for a scalar in the sense of \<^verbatim>\<open>np.isscalar\<close> (a number, but
  a \<^verbatim>\<open>str\<close> or \<^verbatim>\<open>bytes\<close> object as well) and for an array of one element. An array of
  any other size fails with the ValueError of the conversion to a number; a list, a
  function, a class or another object that is no scalar fails with a TypeError. After
  an array of one element has been assigned, the stored value is the number itself and
  reading the property returns that number.
\<close>

theorem ScalarParameter_set_value_outcomes:
  "((\<exists>p'. ScalarParameter_set_value p v = Inr p') \<longleftrightarrow>
      (v = PyNone \<or> np_isscalar v \<or> (\<exists>f. v = NdArray [f])))
   \<and> (np_isscalar v \<longleftrightarrow> (\<exists>f. v = PyFloat f) \<or> (\<exists>t. v = PyStr t) \<or> (\<exists>t. v = PyBytes t))
   \<and> ScalarParameter_set_value p PyNone = Inr (p\<lparr>p_value := PyNone\<rparr>)
   \<and> ScalarParameter_set_value p (PyFloat f) = Inr (p\<lparr>p_value := PyFloat f\<rparr>)
   \<and> ScalarParameter_set_value p (PyStr t) = Inr (p\<lparr>p_value := PyStr t\<rparr>)
   \<and> ScalarParameter_set_value p (PyBytes t) = Inr (p\<lparr>p_value := PyBytes t\<rparr>)
   \<and> ScalarParameter_set_value p (NdArray [f]) = Inr (p\<lparr>p_value := PyFloat f\<rparr>)
   \<and> Parameter_value (p\<lparr>p_value := PyFloat f\<rparr>) = Inr (PyFloat f)
   \<and> (length xs \<noteq> 1 \<longrightarrow> ScalarParameter_set_value p (NdArray xs) = Inl ValueError)
   \<and> ScalarParameter_set_value p (PyList xs) = Inl TypeError
   \<and> ScalarParameter_set_value p (PyCallable r) = Inl TypeError
   \<and> ScalarParameter_set_value p ValueErrorClass = Inl TypeError
   \<and> ScalarParameter_set_value p PyObject = Inl TypeError"
proof (intro conjI impI)
  show "(\<exists>p'. ScalarParameter_set_value p v = Inr p') \<longleftrightarrow>
      (v = PyNone \<or> np_isscalar v \<or> (\<exists>f. v = NdArray [f]))"
    by (cases v; cases "case v of NdArray xs \<Rightarrow> xs | _ \<Rightarrow> []" rule: ndarray_item.cases)
       (auto simp: ScalarParameter_set_value_def)
next
  show "np_isscalar v \<longleftrightarrow> (\<exists>f. v = PyFloat f) \<or> (\<exists>t. v = PyStr t) \<or> (\<exists>t. v = PyBytes t)"
    by (cases v) simp_all
next
  assume "length xs \<noteq> 1"
  then show "ScalarParameter_set_value p (NdArray xs) = Inl ValueError"
    by (cases xs rule: ndarray_item.cases) (auto simp: ScalarParameter_set_value_def)
qed (simp_all add: ScalarParameter_set_value_def Parameter_value_def)

theorem ScalarParameter_set_value_outcomes_witness:
  "length [Fin 1, Fin 2] \<noteq> 1
   \<and> ScalarParameter_set_value scalar_a (NdArray [Fin 1, Fin 2]) = Inl ValueError
   \<and> ScalarParameter_set_value scalar_a (NdArray [Fin 7]) = Inr (scalar_a\<lparr>p_value := PyFloat (Fin 7)\<rparr>)
   \<and> Parameter_value (scalar_a\<lparr>p_value := PyFloat (Fin 7)\<rparr>) = Inr (PyFloat (Fin 7))
   \<and> ScalarParameter_set_value scalar_a (PyStr ''abc'') = Inr (scalar_a\<lparr>p_value := PyStr ''abc''\<rparr>)
   \<and> ScalarParameter_set_value scalar_a (PyList [Fin 7]) = Inl TypeError"
proof -
  have h: "length [Fin 1, Fin 2] \<noteq> 1" by simp
  from h ScalarParameter_set_value_outcomes
    [of scalar_a PyNone "Fin 7" "''abc''" "[Fin 1, Fin 2]" PyNone]
    ScalarParameter_set_value_outcomes [of scalar_a PyNone "Fin 7" "''abc''" "[Fin 7]" PyNone]
  show ?thesis by simp
qed

text \<open>
  The claim as written fails at three values: \<^verbatim>\<open>None\<close> and the text \<^verbatim>\<open>'abc'\<close> are
  neither a number nor an array, yet assigning them succeeds; an array of two elements
  is refused with a ValueError, not a TypeError.
\<close>

theorem ScalarParameter_accepts_None:
  "ScalarParameter_set_value scalar_a PyNone = Inr (scalar_a\<lparr>p_value := PyNone\<rparr>)
   \<and> ScalarParameter_set_value scalar_a (PyStr ''abc'') = Inr (scalar_a\<lparr>p_value := PyStr ''abc''\<rparr>)
   \<and> ScalarParameter_set_value scalar_a (NdArray [Fin 1, Fin 2]) = Inl ValueError"
  by (simp add: ScalarParameter_set_value_def)

text \<open>
  Claim C6 (vector construction). Constructing a \<^verbatim>\<open>VectorParameter\<close> succeeds exactly
  when the value is an array, or a list converted to one, of length 3; an array or list
  of any other length is a ValueError, and a value that is neither is a TypeError.
\<close>

theorem VectorParameter_init_length_three:
  "((\<exists>p. VectorParameter_init v opt b = Inr p) \<longleftrightarrow>
      (\<exists>xs. (v = NdArray xs \<or> v = PyList xs) \<and> length xs = 3))
   \<and> (length xs = 3 \<longrightarrow>
        VectorParameter_init (NdArray xs) opt b =
          Inr (Parameter_init VectorParameterC (NdArray xs) opt b) \<and>
        VectorParameter_init (PyList xs) opt b =
          Inr (Parameter_init VectorParameterC (NdArray xs) opt b))
   \<and> (length xs \<noteq> 3 \<longrightarrow>
        VectorParameter_init (NdArray xs) opt b = Inl ValueError \<and>
        VectorParameter_init (PyList xs) opt b = Inl ValueError)
   \<and> VectorParameter_init PyNone opt b = Inl TypeError
   \<and> VectorParameter_init (PyFloat f) opt b = Inl TypeError
   \<and> VectorParameter_init (PyStr t) opt b = Inl TypeError
   \<and> VectorParameter_init (PyBytes t) opt b = Inl TypeError
   \<and> VectorParameter_init (PyCallable r) opt b = Inl TypeError
   \<and> VectorParameter_init ValueErrorClass opt b = Inl TypeError
   \<and> VectorParameter_init PyObject opt b = Inl TypeError"
proof (intro conjI impI)
  show "(\<exists>p. VectorParameter_init v opt b = Inr p) \<longleftrightarrow>
      (\<exists>xs. (v = NdArray xs \<or> v = PyList xs) \<and> length xs = 3)"
    by (cases v) (auto simp: VectorParameter_init_def)
qed (simp_all add: VectorParameter_init_def)

theorem VectorParameter_init_length_three_witness:
  "length [Fin 1, Fin 2, Fin 3] = 3
   \<and> VectorParameter_init (PyList [Fin 1, Fin 2, Fin 3]) True None = Inr vector_c
   \<and> length [Fin 1, Fin 2] \<noteq> 3
   \<and> VectorParameter_init (NdArray [Fin 1, Fin 2]) True None = Inl ValueError
   \<and> length [Fin 1, Fin 2, Fin 3, Fin 4] \<noteq> 3
   \<and> VectorParameter_init (PyList [Fin 1, Fin 2, Fin 3, Fin 4]) True None = Inl ValueError"
proof -
  have h: "length [Fin 1, Fin 2, Fin 3] = 3" "length [Fin 1, Fin 2] \<noteq> 3"
    "length [Fin 1, Fin 2, Fin 3, Fin 4] \<noteq> 3" by simp_all
  from h
    VectorParameter_init_length_three [of PyNone True None "[Fin 1, Fin 2, Fin 3]"]
    VectorParameter_init_length_three [of PyNone True None "[Fin 1, Fin 2]"]
    VectorParameter_init_length_three [of PyNone True None "[Fin 1, Fin 2, Fin 3, Fin 4]"]
  show ?thesis by (simp add: vector_c_def)
qed

text \<open>
  Claim C7 (validation comparison). Whatever the comparison of two attributes does,
  return or raise, the loop of \<^verbatim>\<open>run_calibration\<close> that compares the initial with the
  calibrated geometries ends without an exception, for every pair of geometry lists.
\<close>

theorem validation_comparison_never_raises:
  "validation_loop assert_almost_equal (zip geoms_initial geoms_calibrated) = None"
  by (rule validation_loop_None)

text \<open>
  Claim C8 (iteration count). With an iteration count that is not positive,
  \<^verbatim>\<open>run_initial_marker_optimization\<close> fails on its assertion before any call is made.
  With a positive count, every run that returns has called the triangulation and the
  calibration in turn exactly that many times, whatever they computed, and with
  collaborators that never raise the run does return.
\<close>

theorem run_initial_marker_optimization_iterations:
  "(nr_iters \<le> 0 \<longrightarrow>
      run_initial_marker_optimization tri cal gs data nr_iters =
        (\<lparr>geoms = gs, markers = None, calls = []\<rparr>, AssertFailed))
   \<and> (0 < nr_iters \<and> run_initial_marker_optimization tri cal gs data nr_iters = (s, Returned m) \<longrightarrow>
        calls s = concat (replicate (nat nr_iters) [Triangulate, Calibrate]))
   \<and> (0 < nr_iters \<and> (\<forall>g. \<exists>m. tri g data = Inr m) \<and> (\<forall>g m. \<exists>g'. cal g m data = Inr g') \<longrightarrow>
        (\<exists>s m. run_initial_marker_optimization tri cal gs data nr_iters = (s, Returned m)))"
proof (intro conjI impI)
  assume "nr_iters \<le> 0"
  then show "run_initial_marker_optimization tri cal gs data nr_iters =
        (\<lparr>geoms = gs, markers = None, calls = []\<rparr>, AssertFailed)"
    by (simp add: run_initial_marker_optimization_def)
next
  assume a: "0 < nr_iters \<and> run_initial_marker_optimization tri cal gs data nr_iters = (s, Returned m)"
  then have "iterate tri cal data (nat nr_iters) \<lparr>geoms = gs, markers = None, calls = []\<rparr> = (s, None)"
    by (auto simp: run_initial_marker_optimization_def split: prod.splits option.splits)
  from iterate_calls [OF this]
  show "calls s = concat (replicate (nat nr_iters) [Triangulate, Calibrate])" by simp
next
  assume a: "0 < nr_iters \<and> (\<forall>g. \<exists>m. tri g data = Inr m) \<and> (\<forall>g m. \<exists>g'. cal g m data = Inr g')"
  then obtain s where s: "iterate tri cal data (nat nr_iters) \<lparr>geoms = gs, markers = None, calls = []\<rparr> = (s, None)"
    using iterate_total [of tri data cal "nat nr_iters"] by blast
  from a have "0 < nat nr_iters" by simp
  with iterate_calls [OF s] obtain m where "markers s = Some m" by auto
  with a s show "\<exists>s m. run_initial_marker_optimization tri cal gs data nr_iters = (s, Returned m)"
    by (simp add: run_initial_marker_optimization_def)
qed

theorem run_initial_marker_optimization_iterations_witness:
  "(0::int) \<le> 0
   \<and> run_initial_marker_optimization example_triangulate example_calibrate 0 0 0 =
       (\<lparr>geoms = 0, markers = None, calls = []\<rparr>, AssertFailed)
   \<and> (0::int) < 3
   \<and> (\<forall>g. \<exists>m. example_triangulate g 0 = Inr m)
   \<and> (\<forall>g m. \<exists>g'. example_calibrate g m 0 = Inr g')
   \<and> run_initial_marker_optimization example_triangulate example_calibrate 0 0 3 =
       (\<lparr>geoms = 3, markers = Some 2,
         calls = [Triangulate, Calibrate, Triangulate, Calibrate, Triangulate, Calibrate]\<rparr>,
        Returned 2)
   \<and> calls \<lparr>geoms = 3::nat, markers = Some (2::nat),
         calls = [Triangulate, Calibrate, Triangulate, Calibrate, Triangulate, Calibrate]\<rparr> =
       concat (replicate (nat 3) [Triangulate, Calibrate])"
proof -
  have h: "(0::int) \<le> 0" "(0::int) < 3"
    "\<forall>g. \<exists>m. example_triangulate g 0 = Inr m"
    "\<forall>g m. \<exists>g'. example_calibrate g m 0 = Inr g'"
    by (simp_all add: example_triangulate_def example_calibrate_def)
  have r: "run_initial_marker_optimization example_triangulate example_calibrate 0 0 3 =
       (\<lparr>geoms = 3, markers = Some 2,
         calls = [Triangulate, Calibrate, Triangulate, Calibrate, Triangulate, Calibrate]\<rparr>,
        Returned 2)"
    by (simp add: run_initial_marker_optimization_def example_triangulate_def
          example_calibrate_def Let_def eval_nat_numeral)
  from h r
    run_initial_marker_optimization_iterations
      [of 0 example_triangulate example_calibrate 0 0 _ _]
    run_initial_marker_optimization_iterations
      [of 3 example_triangulate example_calibrate 0 0
        "\<lparr>geoms = 3, markers = Some 2,
          calls = [Triangulate, Calibrate, Triangulate, Calibrate, Triangulate, Calibrate]\<rparr>" 2]
  show ?thesis by blast
qed

text \<open>
  Claim C9 (length of a lazy value). When the stored value of a parameter is a
  producer, \<^verbatim>\<open>len\<close> looks at the producer itself and raises a TypeError. So does the
  default bounds computation; \<open>params2ndarray\<close> raises a TypeError for every collection
  in which such a parameter is included; \<open>update_params\<close> never succeeds on such a
  collection, and raises the TypeError as soon as the entries before it have been
  processed.
\<close>

theorem callable_value_has_no_len:
  "p_value (heap w a) = PyCallable r \<Longrightarrow>
     Parameter_len (heap w a) = Inl TypeError
     \<and> (p_bounds (heap w a) = None \<longrightarrow> Parameter_bounds (heap w a) = Inl TypeError)
     \<and> (Ref a \<in> set ps \<and> included opt (heap w a) \<longrightarrow>
          snd (params2ndarray w ps opt key) = Inl TypeError)
     \<and> (Ref a \<in> set ps \<and> included opt (heap w a) \<longrightarrow>
          (\<exists>e. snd (update_params w ps x opt) = Some e))
     \<and> (included opt (heap w a) \<and> update_loop w pre x opt 0 = (w1, Inr i) \<longrightarrow>
          update_params w (pre @ Ref a # post) x opt = (w1, Some TypeError))"
proof (intro conjI impI)
  assume c: "p_value (heap w a) = PyCallable r"
  show len: "Parameter_len (heap w a) = Inl TypeError"
    using c by (rule Parameter_len_callable)
  {
    assume "p_bounds (heap w a) = None"
    then show "Parameter_bounds (heap w a) = Inl TypeError"
      by (simp add: Parameter_bounds_def len)
  }
  {
    assume "Ref a \<in> set ps \<and> included opt (heap w a)"
    then show "snd (params2ndarray w ps opt key) = Inl TypeError"
      using compute_length_callable [of a ps opt w r 0] c by (simp add: params2ndarray_snd)
  }
  {
    assume "Ref a \<in> set ps \<and> included opt (heap w a)"
    then obtain e where "snd (update_loop w ps x opt 0) = Inl e"
      using update_loop_stuck [of a ps opt w TypeError x 0] len by blast
    then show "\<exists>e. snd (update_params w ps x opt) = Some e"
      by (cases "update_loop w ps x opt 0") (simp add: update_params_def)
  }
  {
    assume a: "included opt (heap w a) \<and> update_loop w pre x opt 0 = (w1, Inr i)"
    then have "heap w1 a = heap w a"
      using update_loop_keeps_callable [of w pre x opt 0 w1 i a r] c by blast
    with a c show "update_params w (pre @ Ref a # post) x opt = (w1, Some TypeError)"
      by (auto simp: update_params_def update_loop_append Let_def included_def
            Parameter_len_callable split: if_splits)
  }
qed

theorem callable_value_has_no_len_witness:
  "p_value (heap lazy_world 0) = PyCallable (PyFloat (Fin 1))
   \<and> Parameter_value (heap lazy_world 0) = Inr (PyFloat (Fin 1))
   \<and> Parameter_len (heap lazy_world 0) = Inl TypeError
   \<and> p_bounds (heap lazy_world 0) = None
   \<and> Parameter_bounds (heap lazy_world 0) = Inl TypeError
   \<and> Ref 0 \<in> set [NonParam, Ref 0] \<and> included True (heap lazy_world 0)
   \<and> snd (params2ndarray lazy_world [NonParam, Ref 0] True ''value'') = Inl TypeError
   \<and> update_loop lazy_world [NonParam] (NdArray [Fin 3]) True 0 = (lazy_world, Inr 0)
   \<and> update_params lazy_world ([NonParam] @ Ref 0 # []) (NdArray [Fin 3]) True =
       (lazy_world, Some TypeError)"
proof -
  have h: "p_value (heap lazy_world 0) = PyCallable (PyFloat (Fin 1))"
    by (simp add: example_defs)
  have g: "Parameter_value (heap lazy_world 0) = Inr (PyFloat (Fin 1))"
    "p_bounds (heap lazy_world 0) = None"
    "Ref 0 \<in> set [NonParam, Ref 0] \<and> included True (heap lazy_world 0)"
    "update_loop lazy_world [NonParam] (NdArray [Fin 3]) True 0 = (lazy_world, Inr 0)"
    by (simp_all add: example_defs eval_defs)
  from g callable_value_has_no_len [OF h, of "[NonParam, Ref 0]" True "''value''"
      "NdArray [Fin 3]" "[NonParam]" lazy_world 0 "[]"] h
  show ?thesis by blast
qed

text \<open>
  Claim C10 (unknown key), as amended. When every included entry has a length and the
  lengths do not add up to zero, \<open>params2ndarray\<close> with a key other than
  \<^verbatim>\<open>value\<close>, \<^verbatim>\<open>min_bound\<close> and \<^verbatim>\<open>max_bound\<close> raises nothing and returns the class
  \<^verbatim>\<open>ValueError\<close> itself, whatever follows the first included entry.
\<close>

theorem params2ndarray_unknown_key_returns_class:
  "key \<noteq> ''value'' \<Longrightarrow> key \<noteq> ''min_bound'' \<Longrightarrow> key \<noteq> ''max_bound'' \<Longrightarrow>
   compute_length w ps opt 0 = (w1, Inr n) \<Longrightarrow> 0 < n \<Longrightarrow>
     params2ndarray w ps opt key = (w1, Inr ValueErrorClass)"
proof -
  assume k: "key \<noteq> ''value''" "key \<noteq> ''min_bound''" "key \<noteq> ''max_bound''"
    and c: "compute_length w ps opt 0 = (w1, Inr n)" and n: "0 < n"
  from c have h: "heap w1 = heap w" using compute_length_heap [of w ps opt 0] by simp
  from c have "snd (compute_length w ps opt 0) = Inr n" by simp
  from fill_unknown_key [OF k this n]
  have "fill (text_to_float w1) (heap w1) ps opt key (np_empty n) 0 =
      Inr (Return ValueErrorClass)"
    by (simp add: h)
  with c n show ?thesis by (simp add: params2ndarray_def)
qed

theorem params2ndarray_unknown_key_returns_class_witness:
  "''bogus'' \<noteq> ''value'' \<and> ''bogus'' \<noteq> ''min_bound'' \<and> ''bogus'' \<noteq> ''max_bound''
   \<and> compute_length scenario_world scenario_params True 0 = (scenario_world, Inr 5)
   \<and> (0::nat) < 5
   \<and> params2ndarray scenario_world scenario_params True ''bogus'' =
       (scenario_world, Inr ValueErrorClass)"
proof -
  have k: "''bogus'' \<noteq> ''value''" "''bogus'' \<noteq> ''min_bound''" "''bogus'' \<noteq> ''max_bound''"
    by simp_all
  have c: "compute_length scenario_world scenario_params True 0 = (scenario_world, Inr 5)"
    by (simp add: example_defs eval_defs)
  have n: "(0::nat) < 5" by simp
  from k c n params2ndarray_unknown_key_returns_class [OF k c n] show ?thesis by blast
qed

text \<open>
  The claim as written fails on a collection whose only entry is an included
  \<^verbatim>\<open>ScalarParameter()\<close> without a value: the call raises a TypeError. On a collection
  whose only entry is an included parameter with an empty array it returns the empty
  list.
\<close>

theorem params2ndarray_unknown_key_can_raise:
  "included True (heap unset_world 0)
   \<and> params2ndarray unset_world [Ref 0] True ''bogus'' = (unset_world, Inl TypeError)
   \<and> included True (heap unset_world 1)
   \<and> params2ndarray unset_world [Ref 1] True ''bogus'' = (unset_world, Inr (PyList []))"
  by (simp add: example_defs eval_defs)

end
